theory Spec2Isabelle
  imports Complex_Main "HOL-Library.AList"
begin

section \<open>Python values used by the automation manager\<close>

text \<open>
  The development embeds \<^verbatim>\<open>automation/manager.py\<close>: the event handler
  \<^verbatim>\<open>FileEventHandler\<close> and the class \<^verbatim>\<open>AutomationManager\<close>. A call either returns a
  value or raises an exception (a subclass of \<^verbatim>\<open>Exception\<close>, kept as its message
  \<^verbatim>\<open>str(e)\<close>). Python floats are read as real numbers: sums, differences and
  quotients are exact, the rounding of IEEE doubles is outside the model.
\<close>

datatype 'a outcome = Returns 'a | Raises string

datatype level = INFO | WARNING | ERROR

type_synonym log_entry = "level \<times> string"

subsection \<open>Rendering numbers: \<^verbatim>\<open>str\<close>, zero padding, \<^verbatim>\<open>.nf\<close>\<close>

definition digit_char :: "nat \<Rightarrow> char" where
  "digit_char d = ''0123456789'' ! d"

function str_nat :: "nat \<Rightarrow> string" where
  "str_nat n = (if n < 10 then [digit_char n] else str_nat (n div 10) @ [digit_char (n mod 10)])"
  by pat_completeness auto
termination
  by (relation "measure (\<lambda>n. n)") auto

declare str_nat.simps [simp del]

definition str_int :: "int \<Rightarrow> string" where
  "str_int i = (if i < 0 then ''-'' @ str_nat (nat (- i)) else str_nat (nat i))"

definition zfill :: "nat \<Rightarrow> string \<Rightarrow> string" where
  "zfill w s = replicate (w - length s) CHR ''0'' @ s"

definition round_half_even :: "real \<Rightarrow> int" where
  "round_half_even x =
     (let f = \<lfloor>x\<rfloor>; r = x - of_int f
      in if r < 1 / 2 then f else if 1 / 2 < r then f + 1 else if even f then f else f + 1)"

text \<open>
  \<^verbatim>\<open>format(x, '.df')\<close> for \<open>d > 0\<close>: the value rounded to \<open>d\<close> decimals (ties to
  even), at least one digit before the point.
\<close>

definition format_fixed :: "nat \<Rightarrow> real \<Rightarrow> string" where
  "format_fixed d x =
     (let s = zfill (d + 1) (str_nat (nat (round_half_even (\<bar>x\<bar> * 10 ^ d))))
      in (if x < 0 then ''-'' else '''') @ take (length s - d) s @ ''.'' @ drop (length s - d) s)"

subsection \<open>Arithmetic that raises\<close>

text \<open>
  \<^verbatim>\<open>a / b\<close> raises \<^verbatim>\<open>ZeroDivisionError\<close> for a zero divisor; \<^verbatim>\<open>min\<close> and \<^verbatim>\<open>max\<close> raise
  \<^verbatim>\<open>ValueError\<close> on an empty list. A computation that has raised is not continued.
\<close>

definition truediv :: "real \<Rightarrow> real \<Rightarrow> real outcome" where
  "truediv a b = (if b = 0 then Raises ''division by zero'' else Returns (a / b))"

fun py_min :: "real list \<Rightarrow> real outcome" where
  "py_min [] = Raises ''min() arg is an empty sequence''"
| "py_min (x # xs) = Returns (fold min xs x)"

fun py_max :: "real list \<Rightarrow> real outcome" where
  "py_max [] = Raises ''max() arg is an empty sequence''"
| "py_max (x # xs) = Returns (fold max xs x)"

fun then_do :: "'a outcome \<Rightarrow> ('a \<Rightarrow> 'b outcome) \<Rightarrow> 'b outcome" where
  "then_do (Returns x) f = f x"
| "then_do (Raises e) f = Raises e"

subsection \<open>Strings and POSIX paths\<close>

definition lower_char :: "char \<Rightarrow> char" where
  "lower_char c =
     (case map_of (zip ''ABCDEFGHIJKLMNOPQRSTUVWXYZ'' ''abcdefghijklmnopqrstuvwxyz'') c of
        None \<Rightarrow> c | Some d \<Rightarrow> d)"

text \<open>\<^verbatim>\<open>str.lower\<close> on ASCII text.\<close>

definition lower :: "string \<Rightarrow> string" where
  "lower s = map lower_char s"

definition endswith :: "string \<Rightarrow> string \<Rightarrow> bool" where
  "endswith s suf = (length suf \<le> length s \<and> drop (length s - length suf) s = suf)"

text \<open>\<^verbatim>\<open>str.rfind\<close> of one character: the last index holding it, or \<open>-1\<close>.\<close>

definition rfind :: "char \<Rightarrow> string \<Rightarrow> int" where
  "rfind c p =
     (if c \<in> set p then int (length p) - 1 - int (length (takeWhile (\<lambda>x. x \<noteq> c) (rev p)))
      else - 1)"

text \<open>
  \<^verbatim>\<open>os.path.splitext\<close> and \<^verbatim>\<open>os.path.basename\<close> of \<^verbatim>\<open>posixpath\<close>: the extension starts
  at the last dot of the last component, unless only dots precede it there.
\<close>

definition splitext :: "string \<Rightarrow> string \<times> string" where
  "splitext p =
     (let sepIndex = rfind CHR ''/'' p; dotIndex = rfind CHR ''.'' p
      in if sepIndex < dotIndex \<and>
            list_ex (\<lambda>x. x \<noteq> CHR ''.'')
              (take (nat (dotIndex - (sepIndex + 1))) (drop (nat (sepIndex + 1)) p))
         then (take (nat dotIndex) p, drop (nat dotIndex) p)
         else (p, ''''))"

definition basename :: "string \<Rightarrow> string" where
  "basename p = drop (nat (rfind CHR ''/'' p + 1)) p"

text \<open>\<^verbatim>\<open>sep.join(xs)\<close>.\<close>

fun join :: "string \<Rightarrow> string list \<Rightarrow> string" where
  "join sep [] = ''''"
| "join sep [x] = x"
| "join sep (x # y # ys) = x @ sep @ join sep (y # ys)"

subsection \<open>\<^verbatim>\<open>datetime\<close> and \<^verbatim>\<open>timedelta\<close>\<close>

text \<open>
  A naive \<^verbatim>\<open>datetime\<close>, with the fields its constructor has validated (month in 1..12
  and so on), and the difference of two of them as Python normalises it:
  \<open>0 \<le> seconds < 86400\<close>, \<open>0 \<le> microseconds < 10^6\<close>.
\<close>

record datetime =
  year :: nat
  month :: nat
  day :: nat
  hour :: nat
  minute :: nat
  second :: nat
  microsecond :: nat

record timedelta =
  days :: int
  seconds :: int
  microseconds :: int

definition isoformat :: "datetime \<Rightarrow> string" where
  "isoformat d =
     zfill 4 (str_nat (year d)) @ ''-'' @ zfill 2 (str_nat (month d)) @ ''-'' @
     zfill 2 (str_nat (day d)) @ ''T'' @ zfill 2 (str_nat (hour d)) @ '':'' @
     zfill 2 (str_nat (minute d)) @ '':'' @ zfill 2 (str_nat (second d)) @
     (if microsecond d \<noteq> 0 then ''.'' @ zfill 6 (str_nat (microsecond d)) else '''')"

definition is_leap :: "nat \<Rightarrow> bool" where
  "is_leap y = (y mod 4 = 0 \<and> (y mod 100 \<noteq> 0 \<or> y mod 400 = 0))"

definition days_before_year :: "nat \<Rightarrow> int" where
  "days_before_year y =
     (let y1 = int y - 1 in y1 * 365 + y1 div 4 - y1 div 100 + y1 div 400)"

definition days_before_month :: "nat \<Rightarrow> nat \<Rightarrow> int" where
  "days_before_month y m =
     [0, 31, 59, 90, 120, 151, 181, 212, 243, 273, 304, 334] ! (m - 1) +
     (if 2 < m \<and> is_leap y then 1 else 0)"

definition ymd2ord :: "nat \<Rightarrow> nat \<Rightarrow> nat \<Rightarrow> int" where
  "ymd2ord y m d = days_before_year y + days_before_month y m + int d"

definition to_microseconds :: "datetime \<Rightarrow> int" where
  "to_microseconds d =
     ((ymd2ord (year d) (month d) (day d) * 86400 +
       int (hour d) * 3600 + int (minute d) * 60 + int (second d)) * 1000000) +
     int (microsecond d)"

definition datetime_sub :: "datetime \<Rightarrow> datetime \<Rightarrow> timedelta" where
  "datetime_sub a b =
     (let us = to_microseconds a - to_microseconds b;
          r = us mod 86400000000
      in \<lparr>days = us div 86400000000, seconds = r div 1000000, microseconds = r mod 1000000\<rparr>)"

definition total_seconds :: "timedelta \<Rightarrow> real" where
  "total_seconds t =
     real_of_int ((days t * 86400 + seconds t) * 1000000 + microseconds t) / 1000000"

definition timedelta_str :: "timedelta \<Rightarrow> string" where
  "timedelta_str t =
     (let mm = seconds t div 60; ss = seconds t mod 60;
          hh = mm div 60; mm' = mm mod 60;
          s = str_int hh @ '':'' @ zfill 2 (str_int mm') @ '':'' @ zfill 2 (str_int ss);
          s1 = (if days t \<noteq> 0
                then str_int (days t) @ '' day'' @ (if \<bar>days t\<bar> \<noteq> 1 then ''s'' else '''') @
                     '', '' @ s
                else s)
      in if microseconds t \<noteq> 0 then s1 @ ''.'' @ zfill 6 (str_int (microseconds t)) else s1)"

section \<open>Configuration, environment and manager state\<close>

text \<open>
  The configuration document is a dictionary; a key that may be absent (the code reads
  it with \<^verbatim>\<open>.get(key, default)\<close>) is an optional field. A dictionary whose order
  matters is an association list, updated in place or extended at the end.
\<close>

definition get_or :: "'a option \<Rightarrow> 'a \<Rightarrow> 'a" where
  "get_or v d = (case v of None \<Rightarrow> d | Some x \<Rightarrow> x)"

definition dict_len :: "('k \<times> 'v) list \<Rightarrow> nat" where
  "dict_len kvs = length (remdups (map fst kvs))"

record watch_entry =
  w_path :: string
  w_category :: string
  w_enabled :: "bool option"
  w_added_time :: string

record import_rule =
  destination :: "string option"
  translator_options :: "(string \<times> string) list option"
  file_patterns :: "string list option"
  auto_import :: "bool option"

record quality_config =
  enabled :: "bool option"
  max_file_size_mb :: "int option"
  min_file_size_bytes :: "int option"
  allowed_extensions :: "string list option"

record automation_config =
  watch_folders :: "watch_entry list option"
  import_rules :: "(string \<times> import_rule) list option"
  quality_checks :: "quality_config option"

text \<open>The empty dictionary \<^verbatim>\<open>{}\<close> read as a quality policy or as a rule.\<close>

definition empty_quality :: quality_config where
  "empty_quality =
     \<lparr>enabled = None, max_file_size_mb = None, min_file_size_bytes = None,
      allowed_extensions = None\<rparr>"

definition empty_rule :: import_rule where
  "empty_rule =
     \<lparr>destination = None, translator_options = None, file_patterns = None,
      auto_import = None\<rparr>"

text \<open>
  What the manager reads from outside itself: the files that exist, with their sizes
  (\<^verbatim>\<open>os.path.exists\<close>, \<^verbatim>\<open>os.path.getsize\<close>), \<^verbatim>\<open>os.path.abspath\<close> (it depends on the
  working directory), \<^verbatim>\<open>fnmatch.fnmatch\<close>, the configuration file behind
  \<^verbatim>\<open>ConfigManager.save_config\<close>, starting a \<^verbatim>\<open>watchdog\<close> observer on a folder, and
  writing a text file.
\<close>

record env =
  files :: "string \<Rightarrow> nat option"
  abspath :: "string \<Rightarrow> string"
  fnmatch :: "string \<Rightarrow> string \<Rightarrow> bool"
  save_config :: "automation_config \<Rightarrow> unit outcome"
  observer_start :: "string \<Rightarrow> unit outcome"
  write_file :: "string \<Rightarrow> string \<Rightarrow> unit outcome"

definition path_exists :: "env \<Rightarrow> string \<Rightarrow> bool" where
  "path_exists E p = (files E p \<noteq> None)"

text \<open>
  The import backend behind \<^verbatim>\<open>self.translator\<close>, of which the manager uses three
  methods: each call takes the backend's state, returns or raises, and leaves a new
  state. \<^verbatim>\<open>CustomFooTranslator\<close> is one such backend.
\<close>

record 'b translator_api =
  import_file :: "string \<Rightarrow> string \<Rightarrow> 'b \<Rightarrow> bool outcome \<times> 'b"
  validate_file :: "string \<Rightarrow> 'b \<Rightarrow> (bool \<times> string) outcome \<times> 'b"
  set_options :: "(string \<times> string) list \<Rightarrow> 'b \<Rightarrow> unit outcome \<times> 'b"

record statistics =
  total_processed :: nat
  successful_imports :: nat
  failed_imports :: nat
  start_time :: "datetime option"
  last_activity :: "datetime option"
  files_per_category :: "(string \<times> nat) list"
  processing_times :: "real list"

text \<open>
  The fields of \<^verbatim>\<open>AutomationManager\<close>. The backend's state stands for the translator
  object; an observer is kept as the category of its handler, under the folder's path.
\<close>

record 'b manager =
  config :: automation_config
  translator :: 'b
  observers :: "(string \<times> string) list"
  is_monitoring :: bool
  statistics :: statistics
  logger :: "log_entry list"

text \<open>
  Modelled from the spec: \<^verbatim>\<open>InterchangeLogger\<close> (\<^verbatim>\<open>utils/logger.py\<close>) is not among the
  sources. The spec has every failure surface ``through logs, return values, and
  statistics counters'': a call of the logger returns, and appends its level and its
  message to \<open>logger\<close>.
\<close>

definition logger_info :: "string \<Rightarrow> 'b manager \<Rightarrow> 'b manager" where
  "logger_info msg s = s\<lparr>logger := logger s @ [(INFO, msg)]\<rparr>"

definition logger_warning :: "string \<Rightarrow> 'b manager \<Rightarrow> 'b manager" where
  "logger_warning msg s = s\<lparr>logger := logger s @ [(WARNING, msg)]\<rparr>"

definition logger_error :: "string \<Rightarrow> 'b manager \<Rightarrow> 'b manager" where
  "logger_error msg s = s\<lparr>logger := logger s @ [(ERROR, msg)]\<rparr>"

definition save_configuration :: "env \<Rightarrow> 'b manager \<Rightarrow> 'b manager" where
  "save_configuration E s =
     (case save_config E (config s) of
        Returns _ \<Rightarrow> logger_info ''Automation configuration saved'' s
      | Raises e \<Rightarrow> logger_error (''Error saving configuration: '' @ e) s)"

subsection \<open>The default configuration and a new manager\<close>

text \<open>\<^verbatim>\<open>_get_default_config\<close>.\<close>

definition default_quality :: quality_config where
  "default_quality =
     \<lparr>enabled = Some True, max_file_size_mb = Some 100, min_file_size_bytes = Some 1024,
      allowed_extensions = Some [''.foo'', ''.bar'']\<rparr>"

definition default_config :: automation_config where
  "default_config =
     \<lparr>watch_folders = Some [],
      import_rules = Some
        [(''characters'',
          \<lparr>destination = Some ''/Game/Characters/'',
           translator_options = Some [(''EnableDetailedLogging'', ''true''),
                                      (''ValidateInputFiles'', ''true'')],
           file_patterns = Some [''*character*'', ''*char*''],
           auto_import = Some True\<rparr>),
         (''environments'',
          \<lparr>destination = Some ''/Game/Environments/'',
           translator_options = Some [(''EnableDetailedLogging'', ''true''),
                                      (''ValidateInputFiles'', ''true'')],
           file_patterns = Some [''*env*'', ''*environment*'', ''*level*''],
           auto_import = Some True\<rparr>),
         (''props'',
          \<lparr>destination = Some ''/Game/Props/'',
           translator_options = Some [(''EnableDetailedLogging'', ''true'')],
           file_patterns = Some [''*prop*'', ''*object*''],
           auto_import = Some True\<rparr>)],
      quality_checks = Some default_quality\<rparr>"

text \<open>The fields as \<^verbatim>\<open>__init__\<close> sets them, for a configuration that loaded.\<close>

definition new_manager :: "automation_config \<Rightarrow> 'b \<Rightarrow> 'b manager" where
  "new_manager c b =
     \<lparr>config = c, translator = b, observers = [], is_monitoring = False,
      statistics =
        \<lparr>total_processed = 0, successful_imports = 0, failed_imports = 0,
         start_time = None, last_activity = None, files_per_category = [],
         processing_times = []\<rparr>,
      logger = [(INFO, ''Automation configuration loaded successfully'')]\<rparr>"

section \<open>The quality gate and the rule classifier\<close>

definition perform_quality_checks ::
  "env \<Rightarrow> 'b translator_api \<Rightarrow> 'b manager \<Rightarrow> string \<Rightarrow> bool outcome \<times> 'b manager" where
  "perform_quality_checks E T s file_path =
     (let quality_config = get_or (quality_checks (config s)) empty_quality
      in if \<not> get_or (enabled quality_config) True then (Returns True, s)
         else
           (case files E file_path of
              None \<Rightarrow> (Returns False, logger_error (''File does not exist: '' @ file_path) s)
            | Some file_size \<Rightarrow>
                (let max_size = get_or (max_file_size_mb quality_config) 100 * 1024 * 1024;
                     min_size = get_or (min_file_size_bytes quality_config) 1024;
                     allowed = get_or (allowed_extensions quality_config) [];
                     file_ext = lower (snd (splitext file_path))
                 in if max_size < int file_size then
                      (Returns False,
                       logger_error (''File too large: '' @ file_path @ '' ('' @
                         str_nat file_size @ '' bytes > '' @ str_int max_size @ '' bytes)'') s)
                    else if int file_size < min_size then
                      (Returns False,
                       logger_error (''File too small: '' @ file_path @ '' ('' @
                         str_nat file_size @ '' bytes < '' @ str_int min_size @ '' bytes)'') s)
                    else if allowed \<noteq> [] \<and> file_ext \<notin> set allowed then
                      (Returns False,
                       logger_warning (''File extension not in allowed list: '' @ file_ext) s)
                    else
                      (case validate_file T file_path (translator s) of
                         (Raises e, b) \<Rightarrow> (Raises e, s\<lparr>translator := b\<rparr>)
                       | (Returns (is_valid, error_message), b) \<Rightarrow>
                           (if \<not> is_valid then
                              (Returns False,
                               logger_error (''File validation failed: '' @ error_message)
                                 (s\<lparr>translator := b\<rparr>))
                            else (Returns True, s\<lparr>translator := b\<rparr>))))))"

definition matches_file_patterns :: "env \<Rightarrow> string \<Rightarrow> string list \<Rightarrow> bool" where
  "matches_file_patterns E file_path patterns =
     (if patterns = [] then True
      else list_ex (\<lambda>pattern. fnmatch E (lower (basename file_path)) (lower pattern)) patterns)"

section \<open>Processing one file\<close>

definition rule_for :: "automation_config \<Rightarrow> string \<Rightarrow> import_rule option" where
  "rule_for c category = map_of (get_or (import_rules c) []) category"

definition count_failed :: "'b manager \<Rightarrow> 'b manager" where
  "count_failed s =
     s\<lparr>statistics := (statistics s)\<lparr>failed_imports := failed_imports (statistics s) + 1\<rparr>\<rparr>"

definition count_successful :: "'b manager \<Rightarrow> 'b manager" where
  "count_successful s =
     s\<lparr>statistics :=
         (statistics s)\<lparr>successful_imports := successful_imports (statistics s) + 1\<rparr>\<rparr>"

text \<open>The three statistics updates that open the \<^verbatim>\<open>try\<close> block.\<close>

definition begin_processing :: "datetime \<Rightarrow> string \<Rightarrow> 'b manager \<Rightarrow> 'b manager" where
  "begin_processing now category s =
     (let st = statistics s
      in s\<lparr>statistics :=
           st\<lparr>total_processed := total_processed st + 1,
              last_activity := Some now,
              files_per_category :=
                AList.update category
                  (get_or (map_of (files_per_category st) category) 0 + 1)
                  (files_per_category st)\<rparr>\<rparr>)"

text \<open>``Configure translator'' and ``Execute import''.\<close>

definition apply_translator_options ::
  "'b translator_api \<Rightarrow> import_rule \<Rightarrow> 'b manager \<Rightarrow> unit outcome \<times> 'b manager" where
  "apply_translator_options T rule s =
     (let opts = get_or (translator_options rule) []
      in if opts \<noteq> [] then
           (case set_options T opts (translator s) of (r, b) \<Rightarrow> (r, s\<lparr>translator := b\<rparr>))
         else (Returns (), s))"

definition execute_import ::
  "'b translator_api \<Rightarrow> import_rule \<Rightarrow> string \<Rightarrow> 'b manager \<Rightarrow> bool outcome \<times> 'b manager" where
  "execute_import T rule file_path s =
     (case import_file T file_path (get_or (destination rule) ''/Game/ImportedAssets/'')
             (translator s) of
        (r, b) \<Rightarrow> (r, s\<lparr>translator := b\<rparr>))"

text \<open>The \<^verbatim>\<open>try\<close> block: what it returns, or the exception that leaves it.\<close>

definition process_try ::
  "env \<Rightarrow> 'b translator_api \<Rightarrow> 'b manager \<Rightarrow> string \<Rightarrow> string \<Rightarrow> datetime \<Rightarrow>
   bool outcome \<times> 'b manager" where
  "process_try E T s file_path category now =
     (let s1 = begin_processing now category s;
          no_rules =
            (Returns False,
             logger_warning (''No import rules found for category: '' @ category) s1)
      in case rule_for (config s1) category of
           None \<Rightarrow> no_rules
         | Some rule \<Rightarrow>
             if rule = empty_rule then no_rules
             else if \<not> get_or (auto_import rule) True then
               (Returns False,
                logger_info (''Auto-import disabled for category: '' @ category) s1)
             else
               (case perform_quality_checks E T s1 file_path of
                  (Raises e, s2) \<Rightarrow> (Raises e, s2)
                | (Returns ok, s2) \<Rightarrow>
                    if \<not> ok then (Returns False, count_failed s2)
                    else if \<not> matches_file_patterns E file_path
                                (get_or (file_patterns rule) []) then
                      (Returns False,
                       logger_info (''File does not match patterns for category '' @
                         category @ '': '' @ file_path) s2)
                    else
                      (case apply_translator_options T rule s2 of
                         (Raises e, s3) \<Rightarrow> (Raises e, s3)
                       | (Returns u, s3) \<Rightarrow>
                           (case execute_import T rule file_path s3 of
                              (Raises e, s4) \<Rightarrow> (Raises e, s4)
                            | (Returns success, s4) \<Rightarrow>
                                if success then
                                  (Returns True,
                                   logger_info (''Successfully processed: '' @ file_path @
                                     '' -> '' @
                                     get_or (destination rule) ''/Game/ImportedAssets/'')
                                     (count_successful s4))
                                else
                                  (Returns False,
                                   logger_error (''Failed to process: '' @ file_path)
                                     (count_failed s4))))))"

text \<open>The \<^verbatim>\<open>finally\<close> block.\<close>

definition record_processing_time :: "real \<Rightarrow> 'b manager \<Rightarrow> 'b manager" where
  "record_processing_time processing_time s =
     (let ts = processing_times (statistics s) @ [processing_time];
          ts' = (if 100 < length ts then drop (length ts - 100) ts else ts)
      in s\<lparr>statistics := (statistics s)\<lparr>processing_times := ts'\<rparr>\<rparr>)"

text \<open>
  \<^verbatim>\<open>process_single_file\<close>; \<open>t_start\<close> and \<open>t_end\<close> are the two readings of
  \<^verbatim>\<open>time.time()\<close>, \<open>now\<close> the one of \<^verbatim>\<open>datetime.now()\<close>.
\<close>

definition process_single_file ::
  "env \<Rightarrow> 'b translator_api \<Rightarrow> 'b manager \<Rightarrow> string \<Rightarrow> string \<Rightarrow> string \<Rightarrow>
   real \<Rightarrow> datetime \<Rightarrow> real \<Rightarrow> bool \<times> 'b manager" where
  "process_single_file E T s file_path category event_type t_start now t_end =
     (let (r, s1) = process_try E T s file_path category now;
          (res, s2) =
            (case r of
               Returns b \<Rightarrow> (b, s1)
             | Raises e \<Rightarrow>
                 (False,
                  logger_error (''Exception processing '' @ file_path @ '': '' @ e)
                    (count_failed s1)))
      in (res, record_processing_time (t_end - t_start) s2))"

section \<open>Watch folders\<close>

definition start_folder_monitoring :: "env \<Rightarrow> 'b manager \<Rightarrow> watch_entry \<Rightarrow> 'b manager" where
  "start_folder_monitoring E s watch_entry =
     (let folder_path = w_path watch_entry; category = w_category watch_entry
      in if \<not> path_exists E folder_path then
           logger_error (''Cannot monitor non-existent folder: '' @ folder_path) s
         else
           (case observer_start E folder_path of
              Returns u \<Rightarrow>
                logger_info (''Started monitoring: '' @ folder_path @ '' (category: '' @
                  category @ '')'')
                  (s\<lparr>observers := AList.update folder_path category (observers s)\<rparr>)
            | Raises e \<Rightarrow>
                logger_error (''Error starting monitoring for '' @ folder_path @ '': '' @ e) s))"

text \<open>\<^verbatim>\<open>add_watch_folder\<close>; \<open>now\<close> is its reading of \<^verbatim>\<open>datetime.now()\<close>.\<close>

definition add_watch_folder ::
  "env \<Rightarrow> 'b manager \<Rightarrow> string \<Rightarrow> string \<Rightarrow> bool \<Rightarrow> datetime \<Rightarrow> bool \<times> 'b manager" where
  "add_watch_folder E s folder_path category is_enabled now =
     (if \<not> path_exists E folder_path then
        (False, logger_warning (''Watch folder does not exist: '' @ folder_path) s)
      else
        let watch_entry =
              \<lparr>w_path = abspath E folder_path, w_category = category,
               w_enabled = Some is_enabled, w_added_time = isoformat now\<rparr>;
            existing_folders = map w_path (get_or (watch_folders (config s)) [])
        in if w_path watch_entry \<notin> set existing_folders then
             let s1 = s\<lparr>config := (config s)
                        \<lparr>watch_folders :=
                           Some (get_or (watch_folders (config s)) [] @ [watch_entry])\<rparr>\<rparr>;
                 s2 = save_configuration E s1;
                 s3 = logger_info (''Added watch folder: '' @ folder_path @
                        '' (category: '' @ category @ '')'') s2;
                 s4 = (if is_monitoring s3 then start_folder_monitoring E s3 watch_entry
                       else s3)
             in (True, s4)
           else
             (False, logger_warning (''Folder already being monitored: '' @ folder_path) s))"

section \<open>Statistics and the report\<close>

text \<open>
  What \<^verbatim>\<open>get_statistics\<close> returns: the statistics and the derived entries. The three
  processing-time entries are set together, and so are the two uptime entries; an entry
  that is not set is \<open>None\<close>.
\<close>

record stats_view = statistics +
  average_processing_time :: "real option"
  min_processing_time :: "real option"
  max_processing_time :: "real option"
  success_rate :: real
  uptime_seconds :: "real option"
  uptime_formatted :: "string option"
  monitoring_enabled :: bool
  watched_folders :: nat
  import_rules_count :: nat

text \<open>
  \<^verbatim>\<open>get_statistics\<close>; \<open>now\<close> is read when a start time is set. The call returns the
  dictionary, or raises what one of its computations raises.
\<close>

definition get_statistics :: "'b manager \<Rightarrow> datetime \<Rightarrow> stats_view outcome" where
  "get_statistics s now =
     (let stats = statistics s;
          ts = processing_times stats;
          uptime = map_option (datetime_sub now) (start_time stats)
      in then_do
           (if ts \<noteq> [] then
              then_do (truediv (sum_list ts) (real (length ts))) (\<lambda>average.
              then_do (py_min ts) (\<lambda>lo.
              then_do (py_max ts) (\<lambda>hi. Returns (Some average, Some lo, Some hi))))
            else Returns (None, None, None))
           (\<lambda>(average, lo, hi).
              then_do
                (if 0 < total_processed stats then
                   then_do (truediv (real (successful_imports stats))
                              (real (total_processed stats)))
                     (\<lambda>q. Returns (q * 100))
                 else Returns 0)
                (\<lambda>rate.
                   Returns
                     \<lparr>total_processed = total_processed stats,
                      successful_imports = successful_imports stats,
                      failed_imports = failed_imports stats,
                      start_time = start_time stats,
                      last_activity = last_activity stats,
                      files_per_category = files_per_category stats,
                      processing_times = ts,
                      average_processing_time = average,
                      min_processing_time = lo,
                      max_processing_time = hi,
                      success_rate = rate,
                      uptime_seconds = map_option total_seconds uptime,
                      uptime_formatted = map_option timedelta_str uptime,
                      monitoring_enabled = is_monitoring s,
                      watched_folders = length (get_or (watch_folders (config s)) []),
                      import_rules_count = dict_len (get_or (import_rules (config s)) [])\<rparr>)))"

definition reset_statistics :: "'b manager \<Rightarrow> datetime \<Rightarrow> 'b manager" where
  "reset_statistics s now =
     logger_info ''Statistics reset''
       (s\<lparr>statistics :=
            \<lparr>total_processed = 0, successful_imports = 0, failed_imports = 0,
             start_time = (if is_monitoring s then Some now else None),
             last_activity = None, files_per_category = [], processing_times = []\<rparr>\<rparr>)"

text \<open>The lines of the report, for the statistics read and the folders configured.\<close>

definition report_lines :: "stats_view \<Rightarrow> watch_entry list \<Rightarrow> datetime \<Rightarrow> string list" where
  "report_lines stats watch now =
     [replicate 60 CHR ''='', ''INTERCHANGE AUTOMATION REPORT'', replicate 60 CHR ''='',
      ''Generated: '' @ isoformat now, '''',
      ''SYSTEM STATUS:'',
      ''  Monitoring Active: '' @ (if monitoring_enabled stats then ''Yes'' else ''No''),
      ''  Watched Folders: '' @ str_nat (watched_folders stats),
      ''  Import Rules: '' @ str_nat (import_rules_count stats)] @
     (case uptime_formatted stats of
        None \<Rightarrow> []
      | Some u \<Rightarrow> if u \<noteq> [] then [''  Uptime: '' @ u] else []) @
     ['''',
      ''PROCESSING STATISTICS:'',
      ''  Total Processed: '' @ str_nat (total_processed stats),
      ''  Successful: '' @ str_nat (successful_imports stats),
      ''  Failed: '' @ str_nat (failed_imports stats),
      ''  Success Rate: '' @ format_fixed 1 (success_rate stats) @ ''%'',
      ''''] @
     (case (average_processing_time stats, min_processing_time stats,
            max_processing_time stats) of
        (Some a, Some lo, Some hi) \<Rightarrow>
          if a \<noteq> 0 then
            [''PERFORMANCE METRICS:'',
             ''  Average Processing Time: '' @ format_fixed 3 a @ ''s'',
             ''  Min Processing Time: '' @ format_fixed 3 lo @ ''s'',
             ''  Max Processing Time: '' @ format_fixed 3 hi @ ''s'',
             '''']
          else []
      | _ \<Rightarrow> []) @
     (if files_per_category stats \<noteq> [] then
        ''FILES BY CATEGORY:'' #
        map (\<lambda>(category, count). ''  '' @ category @ '': '' @ str_nat count)
          (files_per_category stats) @ ['''']
      else []) @
     ''CONFIGURATION:'' #
     map (\<lambda>folder. ''  '' @ w_path folder @ '' ('' @ w_category folder @ '') - '' @
                    (if get_or (w_enabled folder) True then ''Enabled'' else ''Disabled''))
       watch @
     [replicate 60 CHR ''='']"

text \<open>
  \<^verbatim>\<open>generate_report\<close>; \<open>now_stats\<close> is the clock as \<^verbatim>\<open>get_statistics\<close> reads it, \<open>now\<close>
  the later reading for the line ``Generated''.
\<close>

definition generate_report ::
  "env \<Rightarrow> 'b manager \<Rightarrow> string option \<Rightarrow> datetime \<Rightarrow> datetime \<Rightarrow>
   string outcome \<times> 'b manager" where
  "generate_report E s output_file now_stats now =
     (case get_statistics s now_stats of
        Raises e \<Rightarrow> (Raises e, s)
      | Returns stats \<Rightarrow>
          (let report_content =
                 join [CHR 0x0A]
                   (report_lines stats (get_or (watch_folders (config s)) []) now)
           in (Returns report_content,
               case output_file of
                 None \<Rightarrow> s
               | Some f \<Rightarrow>
                   if f = [] then s
                   else
                     (case write_file E f report_content of
                        Returns u \<Rightarrow> logger_info (''Report saved to: '' @ f) s
                      | Raises e \<Rightarrow> logger_error (''Error saving report: '' @ e) s))))"

section \<open>Batch import\<close>

text \<open>
  A detail record and the result dictionary of \<^verbatim>\<open>batch_import_files\<close>. The keys
  \<^verbatim>\<open>end_time\<close>, \<^verbatim>\<open>duration_seconds\<close> and \<^verbatim>\<open>success_rate\<close> are set after the loop.
\<close>

record detail =
  d_file :: string
  d_status :: string
  d_destination :: "string option"
  d_error :: "string option"

record batch_results =
  total_files :: nat
  successful :: nat
  failed :: nat
  b_start_time :: string
  details :: "detail list"
  end_time :: "string option"
  duration_seconds :: "real option"
  b_success_rate :: "real option"

text \<open>
  The body of the loop for the file at index \<open>i\<close> of \<open>n\<close>. The progress is computed
  inside the \<^verbatim>\<open>try\<close>: an exception of it is handled as one of the import is.
\<close>

definition error_detail :: "string \<Rightarrow> string \<Rightarrow> batch_results \<Rightarrow> batch_results" where
  "error_detail file_path e results =
     results\<lparr>failed := failed results + 1,
             details := details results @
               [\<lparr>d_file = file_path, d_status = ''error'', d_destination = None,
                 d_error = Some e\<rparr>]\<rparr>"

definition batch_step ::
  "'b translator_api \<Rightarrow> string \<Rightarrow> nat \<Rightarrow> nat \<Rightarrow> string \<Rightarrow>
   batch_results \<times> 'b manager \<Rightarrow> batch_results \<times> 'b manager" where
  "batch_step T destination_path n i file_path rs =
     (let results = fst rs; s = snd rs
      in case import_file T file_path destination_path (translator s) of
           (Returns success, b) \<Rightarrow>
             (let results1 =
                    (if success then
                       results\<lparr>successful := successful results + 1,
                               details := details results @
                                 [\<lparr>d_file = file_path, d_status = ''success'',
                                   d_destination = Some destination_path, d_error = None\<rparr>]\<rparr>
                     else
                       results\<lparr>failed := failed results + 1,
                               details := details results @
                                 [\<lparr>d_file = file_path, d_status = ''failed'',
                                   d_destination = None, d_error = Some ''Import failed''\<rparr>]\<rparr>);
                  s1 = s\<lparr>translator := b\<rparr>
              in if (i + 1) mod 10 = 0 \<or> i + 1 = n then
                   (case truediv (real (i + 1)) (real n) of
                      Returns q \<Rightarrow>
                        (results1,
                         logger_info (''Batch import progress: '' @
                           format_fixed 1 (q * 100) @ ''% ('' @
                           str_nat (i + 1) @ ''/'' @ str_nat n @ '')'') s1)
                    | Raises e \<Rightarrow> (error_detail file_path e results1, s1))
                 else (results1, s1))
         | (Raises e, b) \<Rightarrow> (error_detail file_path e results, s\<lparr>translator := b\<rparr>))"

fun batch_loop ::
  "'b translator_api \<Rightarrow> string \<Rightarrow> nat \<Rightarrow> nat \<Rightarrow> string list \<Rightarrow>
   batch_results \<times> 'b manager \<Rightarrow> batch_results \<times> 'b manager" where
  "batch_loop T destination_path n i [] rs = rs"
| "batch_loop T destination_path n i (file_path # rest) rs =
     batch_loop T destination_path n (i + 1) rest (batch_step T destination_path n i file_path rs)"

text \<open>
  \<^verbatim>\<open>batch_import_files\<close>, with its two readings of \<^verbatim>\<open>time.time()\<close> and of
  \<^verbatim>\<open>datetime.now()\<close>. The call returns the result dictionary, or raises what the
  computation of the rate raises.
\<close>

definition batch_import_files ::
  "'b translator_api \<Rightarrow> 'b manager \<Rightarrow> string list \<Rightarrow> string \<Rightarrow> string \<Rightarrow>
   real \<Rightarrow> datetime \<Rightarrow> datetime \<Rightarrow> real \<Rightarrow> batch_results outcome \<times> 'b manager" where
  "batch_import_files T s file_paths destination_path category t_start now_start now_end t_end =
     (let results =
            \<lparr>total_files = length file_paths, successful = 0, failed = 0,
             b_start_time = isoformat now_start, details = [], end_time = None,
             duration_seconds = None, b_success_rate = None\<rparr>;
          s0 = logger_info (''Starting batch import of '' @ str_nat (length file_paths) @
                 '' files'') s;
          looped = batch_loop T destination_path (length file_paths) 0 file_paths (results, s0);
          results1 = (fst looped)\<lparr>end_time := Some (isoformat now_end),
                                   duration_seconds := Some (t_end - t_start)\<rparr>
      in case (if 0 < total_files results1 then
                 then_do (truediv (real (successful results1)) (real (total_files results1)))
                   (\<lambda>q. Returns (q * 100))
               else Returns 0) of
           Raises e \<Rightarrow> (Raises e, snd looped)
         | Returns rate \<Rightarrow>
             (let results2 = results1\<lparr>b_success_rate := Some rate\<rparr>
              in (Returns results2,
                  logger_info (''Batch import completed: '' @
                    str_nat (successful results2) @ ''/'' @ str_nat (total_files results2) @
                    '' successful ('' @ format_fixed 1 rate @ ''%)'') (snd looped))))"

section \<open>The event handler of a watched folder\<close>

text \<open>
  \<^verbatim>\<open>FileEventHandler\<close>. The queue is read and written under \<^verbatim>\<open>processing_lock\<close>, so
  each locked block is one step. \<open>flush_threads\<close> counts the threads that
  \<^verbatim>\<open>_queue_file_for_processing\<close> has started and that have not yet woken from their
  \<^verbatim>\<open>sleep\<close>. The manager is the object given to the constructor: what the handler
  uses of it is its method \<^verbatim>\<open>process_single_file\<close>, a function on the manager's
  state \<open>'m\<close>.
\<close>

record pending_event =
  pe_path :: string
  pe_event_type :: string
  pe_timestamp :: datetime
  pe_category :: string

record fs_event =
  src_path :: string
  is_directory :: bool

record handler =
  h_category :: string
  processing_queue :: "pending_event list"
  flush_threads :: nat
  h_logger :: "log_entry list"

type_synonym 'm processor = "string \<Rightarrow> string \<Rightarrow> string \<Rightarrow> 'm \<Rightarrow> bool outcome \<times> 'm"





text \<open>The loop of \<^verbatim>\<open>_process_queue\<close> over the items it has taken.\<close>

fun process_items :: "'m processor \<Rightarrow> pending_event list \<Rightarrow> handler \<times> 'm \<Rightarrow> handler \<times> 'm" where
  "process_items proc [] hm = hm"
| "process_items proc (item # items) hm =
     process_items proc items
       (case proc (pe_path item) (pe_category item) (pe_event_type item) (snd hm) of
          (Returns b, m) \<Rightarrow> (fst hm, m)
        | (Raises e, m) \<Rightarrow>
            ((fst hm)\<lparr>h_logger := h_logger (fst hm) @
               [(ERROR, ''Error processing '' @ pe_path item @ '': '' @ e)]\<rparr>, m))"

text \<open>\<^verbatim>\<open>_process_queue\<close>, once its thread has slept.\<close>

definition process_queue :: "'m processor \<Rightarrow> handler \<times> 'm \<Rightarrow> handler \<times> 'm" where
  "process_queue proc hm =
     (if processing_queue (fst hm) = [] then hm
      else process_items proc (processing_queue (fst hm))
             ((fst hm)\<lparr>processing_queue := []\<rparr>, snd hm))"

text \<open>
  What happens to a handler: the observer reports a created or a modified path, or one
  of the started threads wakes up.
\<close>

datatype step = Created fs_event datetime | Modified fs_event datetime | Wake



section \<open>Notions used in the statements\<close>

subsection \<open>Reading the log and the policy\<close>

definition new_entries :: "'b manager \<Rightarrow> 'b manager \<Rightarrow> log_entry list" where
  "new_entries s s' = drop (length (logger s)) (logger s')"

definition startswith :: "string \<Rightarrow> string \<Rightarrow> bool" where
  "startswith s pre = (take (length pre) s = pre)"

text \<open>
  A check that rejects a file for a reason: it returns \<^verbatim>\<open>False\<close>, and a message it has
  logged starts with the reason.
\<close>

definition rejected_because ::
  "string \<Rightarrow> 'b manager \<Rightarrow> bool outcome \<times> 'b manager \<Rightarrow> bool" where
  "rejected_because reason s res =
     (fst res = Returns False \<and>
      list_ex (\<lambda>m. startswith (snd m) reason) (new_entries s (snd res)))"

text \<open>The policy a check reads from the configuration, and its bounds with their defaults.\<close>

definition policy :: "'b manager \<Rightarrow> quality_config" where
  "policy s = get_or (quality_checks (config s)) empty_quality"

definition policy_enabled :: "quality_config \<Rightarrow> bool" where
  "policy_enabled q = get_or (enabled q) True"

definition max_mb :: "quality_config \<Rightarrow> int" where
  "max_mb q = get_or (max_file_size_mb q) 100"

definition min_bytes :: "quality_config \<Rightarrow> int" where
  "min_bytes q = get_or (min_file_size_bytes q) 1024"

subsection \<open>The ways a call of \<^verbatim>\<open>process_single_file\<close> ends\<close>

text \<open>
  Read off the stages of the call, in their order: the rule of the category is missing
  or empty; its \<^verbatim>\<open>auto_import\<close> is off; the quality gate returns \<^verbatim>\<open>False\<close> or raises;
  the file name matches no pattern of the rule; setting the rule's options raises; the
  import returns \<^verbatim>\<open>False\<close>, raises, or returns \<^verbatim>\<open>True\<close>.
\<close>

datatype ending =
  NoRule | AutoImportOff | GateRejected | GateRaised | PatternMiss | OptionsRaised |
  ImportFailed | ImportRaised | Imported

definition ending_of ::
  "env \<Rightarrow> 'b translator_api \<Rightarrow> 'b manager \<Rightarrow> string \<Rightarrow> string \<Rightarrow> datetime \<Rightarrow> ending" where
  "ending_of E T s file_path category now =
     (case rule_for (config s) category of
        None \<Rightarrow> NoRule
      | Some rule \<Rightarrow>
          if rule = empty_rule then NoRule
          else if \<not> get_or (auto_import rule) True then AutoImportOff
          else
            (case perform_quality_checks E T (begin_processing now category s) file_path of
               (Raises e, s2) \<Rightarrow> GateRaised
             | (Returns False, s2) \<Rightarrow> GateRejected
             | (Returns True, s2) \<Rightarrow>
                 if \<not> matches_file_patterns E file_path (get_or (file_patterns rule) [])
                 then PatternMiss
                 else
                   (case apply_translator_options T rule s2 of
                      (Raises e, s3) \<Rightarrow> OptionsRaised
                    | (Returns u, s3) \<Rightarrow>
                        (case execute_import T rule file_path s3 of
                           (Raises e, s4) \<Rightarrow> ImportRaised
                         | (Returns False, s4) \<Rightarrow> ImportFailed
                         | (Returns True, s4) \<Rightarrow> Imported))))"

fun counts_as_failure :: "ending \<Rightarrow> bool" where
  "counts_as_failure GateRejected = True"
| "counts_as_failure GateRaised = True"
| "counts_as_failure OptionsRaised = True"
| "counts_as_failure ImportFailed = True"
| "counts_as_failure ImportRaised = True"
| "counts_as_failure NoRule = False"
| "counts_as_failure AutoImportOff = False"
| "counts_as_failure PatternMiss = False"
| "counts_as_failure Imported = False"

fun classification_miss :: "ending \<Rightarrow> bool" where
  "classification_miss NoRule = True"
| "classification_miss AutoImportOff = True"
| "classification_miss PatternMiss = True"
| "classification_miss GateRejected = False"
| "classification_miss GateRaised = False"
| "classification_miss OptionsRaised = False"
| "classification_miss ImportFailed = False"
| "classification_miss ImportRaised = False"
| "classification_miss Imported = False"

subsection \<open>Watch entries, import outcomes, bursts of events\<close>

text \<open>The watch entries of the configuration, and those of one path.\<close>

definition folders :: "'b manager \<Rightarrow> watch_entry list" where
  "folders s = get_or (watch_folders (config s)) []"

definition entries_for :: "string \<Rightarrow> 'b manager \<Rightarrow> watch_entry list" where
  "entries_for path s = filter (\<lambda>w. w_path w = path) (folders s)"

text \<open>
  What the backend answers when the files are imported one after the other, from the
  state \<open>b\<close> on, and the status of the detail record for an answer.
\<close>

fun import_outcomes :: "'b translator_api \<Rightarrow> string \<Rightarrow> 'b \<Rightarrow> string list \<Rightarrow> bool outcome list" where
  "import_outcomes T d b [] = []"
| "import_outcomes T d b (f # fs) =
     fst (import_file T f d b) # import_outcomes T d (snd (import_file T f d b)) fs"

fun status_of :: "bool outcome \<Rightarrow> string" where
  "status_of (Returns True) = ''success''"
| "status_of (Returns False) = ''failed''"
| "status_of (Raises e) = ''error''"

definition succeeded :: "bool outcome \<Rightarrow> bool" where
  "succeeded r = (r = Returns True)"



section \<open>Fixtures\<close>

text \<open>
  Shell patterns built from literal characters, \<^verbatim>\<open>*\<close> and \<^verbatim>\<open>?\<close>, on which
  \<^verbatim>\<open>fnmatch\<close> is this function; bracket expressions are not covered.
\<close>

fun glob_match :: "string \<Rightarrow> string \<Rightarrow> bool" where
  "glob_match [] [] = True"
| "glob_match (c # cs) [] = False"
| "glob_match [] (p # ps) = (p = CHR ''*'' \<and> glob_match [] ps)"
| "glob_match (c # cs) (p # ps) =
     (if p = CHR ''*'' then glob_match (c # cs) ps \<or> glob_match cs (p # ps)
      else (p = CHR ''?'' \<or> p = c) \<and> glob_match cs ps)"

text \<open>
  A machine holding the listed paths, with absolute normalised names, on which saving,
  watching and writing succeed.
\<close>

definition posix_env :: "(string \<times> nat) list \<Rightarrow> env" where
  "posix_env fs =
     \<lparr>files = map_of fs, abspath = (\<lambda>p. p), fnmatch = glob_match,
      save_config = (\<lambda>c. Returns ()), observer_start = (\<lambda>p. Returns ()),
      write_file = (\<lambda>p content. Returns ())\<rparr>"

text \<open>
  \<^verbatim>\<open>CustomFooTranslator\<close> as it answers without the engine (its development mode): a
  file imports when it exists and ends in \<^verbatim>\<open>.foo\<close>. The wrapper's own counters are
  left out.
\<close>

definition dev_backend :: "env \<Rightarrow> unit translator_api" where
  "dev_backend E =
     \<lparr>import_file = (\<lambda>p d b. (Returns (path_exists E p \<and> endswith (lower p) ''.foo''), b)),
      validate_file = (\<lambda>p b.
        (Returns
          (if \<not> path_exists E p then (False, ''File does not exist: '' @ p)
           else if \<not> endswith (lower p) ''.foo'' then
             (False, ''Unsupported file format: '' @ snd (splitext p))
           else (True, '''')), b)),
      set_options = (\<lambda>opts b. (Returns (), b))\<rparr>"

text \<open>
  A backend driven by a script: the outcome of an import is read off the path, and
  setting options has one fixed outcome. Validation accepts every file.
\<close>

definition scripted_backend ::
  "(string \<Rightarrow> bool outcome) \<Rightarrow> unit outcome \<Rightarrow> unit translator_api" where
  "scripted_backend imp opt =
     \<lparr>import_file = (\<lambda>p d b. (imp p, b)),
      validate_file = (\<lambda>p b. (Returns (True, ''''), b)),
      set_options = (\<lambda>opts b. (opt, b))\<rparr>"

definition asset_env :: env where
  "asset_env =
     posix_env
       [(''/assets/hero_character.foo'', 101000000), (''/assets/empty.foo'', 0),
        (''/assets/huge.foo'', 200000000),
        (''/assets/small_character.foo'', 2048), (''/assets/prop_barrel.foo'', 4096),
        (''/assets/notes_character.txt'', 2048), (''/assets'', 4096)]"

text \<open>The same machine, with the root as its working directory.\<close>

definition root_env :: env where
  "root_env =
     asset_env
       \<lparr>files := (\<lambda>p. files asset_env (if take 1 p = ''/'' then p else ''/'' @ p)),
        abspath := (\<lambda>p. if take 1 p = ''/'' then p else ''/'' @ p)\<rparr>"

definition noon :: datetime where
  "noon = \<lparr>year = 2024, month = 1, day = 1, hour = 12, minute = 0, second = 0, microsecond = 0\<rparr>"

definition noon_plus :: "nat \<Rightarrow> datetime" where
  "noon_plus n = noon\<lparr>second := n\<rparr>"

text \<open>A backend on which the import of one file raises and that of another fails.\<close>

definition moody_backend :: "unit translator_api" where
  "moody_backend =
     scripted_backend
       (\<lambda>p. if p = ''/assets/broken.foo'' then Raises ''disk error''
            else Returns (p \<noteq> ''/assets/refused.foo''))
       (Returns ())"




section \<open>Evaluation lemmas\<close>

lemma replicate_numeral:
  "replicate (numeral k) x = x # replicate (pred_numeral k) x"
  by (simp add: numeral_eq_Suc)

lemmas fixture_defs =
  asset_env_def posix_env_def dev_backend_def scripted_backend_def new_manager_def
  default_config_def default_quality_def empty_rule_def empty_quality_def

lemmas string_defs =
  splitext_def rfind_def basename_def lower_def lower_char_def endswith_def startswith_def

section \<open>The quality gate\<close>

text \<open>
  Claim C1, as the code has it. For an enabled policy and a path that exists, the check
  rejects the file with the reason ``File too large'' exactly when its size exceeds
  \<open>max_mb * 1024 * 1024\<close> bytes, and with the reason ``File too small'' exactly when the
  size is within that bound and below \<open>min_bytes\<close>. With \<open>max_mb = 100\<close> and
  \<open>min_bytes = 1024\<close> a file of 0 bytes is too small, one of 200 000 000 bytes is too
  large, and one of 2048 bytes gets neither reason.
\<close>

theorem quality_gate_size_bounds:
  assumes "policy_enabled (policy s)"
    and "files E file_path = Some file_size"
  shows
    "(rejected_because ''File too large: '' s (perform_quality_checks E T s file_path)
        \<longleftrightarrow> max_mb (policy s) * 1024 * 1024 < int file_size) \<and>
     (rejected_because ''File too small: '' s (perform_quality_checks E T s file_path)
        \<longleftrightarrow> int file_size \<le> max_mb (policy s) * 1024 * 1024 \<and>
            int file_size < min_bytes (policy s)) \<and>
     (max_mb (policy s) = 100 \<and> min_bytes (policy s) = 1024 \<longrightarrow>
        (file_size = 0 \<longrightarrow>
           rejected_because ''File too small: '' s (perform_quality_checks E T s file_path)) \<and>
        (file_size = 200000000 \<longrightarrow>
           rejected_because ''File too large: '' s (perform_quality_checks E T s file_path)) \<and>
        (file_size = 2048 \<longrightarrow>
           \<not> rejected_because ''File too large: '' s (perform_quality_checks E T s file_path) \<and>
           \<not> rejected_because ''File too small: '' s (perform_quality_checks E T s file_path)))"
proof -
  have large:
    "rejected_because ''File too large: '' s (perform_quality_checks E T s file_path)
       \<longleftrightarrow> max_mb (policy s) * 1024 * 1024 < int file_size"
    using assms
    by (simp add: perform_quality_checks_def rejected_because_def new_entries_def
        startswith_def logger_error_def logger_warning_def policy_def policy_enabled_def
        max_mb_def Let_def split: prod.splits outcome.splits)
  have small:
    "rejected_because ''File too small: '' s (perform_quality_checks E T s file_path)
       \<longleftrightarrow> int file_size \<le> max_mb (policy s) * 1024 * 1024 \<and>
           int file_size < min_bytes (policy s)"
    using assms
    by (simp add: perform_quality_checks_def rejected_because_def new_entries_def
        startswith_def logger_error_def logger_warning_def policy_def policy_enabled_def
        max_mb_def min_bytes_def Let_def split: prod.splits outcome.splits)
  show ?thesis
    unfolding large small by simp
qed

theorem quality_gate_size_bounds_witness:
  "policy_enabled (policy (new_manager default_config ())) \<and>
   max_mb (policy (new_manager default_config ())) = 100 \<and>
   min_bytes (policy (new_manager default_config ())) = 1024 \<and>
   files asset_env ''/assets/empty.foo'' = Some 0 \<and>
   files asset_env ''/assets/huge.foo'' = Some 200000000 \<and>
   files asset_env ''/assets/small_character.foo'' = Some 2048 \<and>
   rejected_because ''File too small: '' (new_manager default_config ())
     (perform_quality_checks asset_env (dev_backend asset_env) (new_manager default_config ())
        ''/assets/empty.foo'') \<and>
   rejected_because ''File too large: '' (new_manager default_config ())
     (perform_quality_checks asset_env (dev_backend asset_env) (new_manager default_config ())
        ''/assets/huge.foo'') \<and>
   \<not> rejected_because ''File too large: '' (new_manager default_config ())
     (perform_quality_checks asset_env (dev_backend asset_env) (new_manager default_config ())
        ''/assets/small_character.foo'') \<and>
   \<not> rejected_because ''File too small: '' (new_manager default_config ())
     (perform_quality_checks asset_env (dev_backend asset_env) (new_manager default_config ())
        ''/assets/small_character.foo'')"
proof -
  have en: "policy_enabled (policy (new_manager default_config () :: unit manager))"
    by (simp add: policy_enabled_def policy_def fixture_defs get_or_def)
  have sizes:
    "files asset_env ''/assets/empty.foo'' = Some 0"
    "files asset_env ''/assets/huge.foo'' = Some 200000000"
    "files asset_env ''/assets/small_character.foo'' = Some 2048"
    by (simp_all add: fixture_defs)
  have bounds:
    "max_mb (policy (new_manager default_config () :: unit manager)) = 100"
    "min_bytes (policy (new_manager default_config () :: unit manager)) = 1024"
    by (simp_all add: max_mb_def min_bytes_def policy_def fixture_defs get_or_def)
  from quality_gate_size_bounds [OF en sizes(1), of "dev_backend asset_env"]
       quality_gate_size_bounds [OF en sizes(2), of "dev_backend asset_env"]
       quality_gate_size_bounds [OF en sizes(3), of "dev_backend asset_env"]
       bounds en sizes
  show ?thesis by simp
qed

text \<open>
  The bound of the claim, \<open>max_mb * 1000000\<close> bytes, is not the bound of the code: under the
  default policy a file of 101 000 000 bytes exceeds it and passes the whole check.
\<close>

theorem quality_gate_decimal_megabyte_counterexample:
  "policy_enabled (policy (new_manager default_config ())) \<and>
   max_mb (policy (new_manager default_config ())) = 100 \<and>
   files asset_env ''/assets/hero_character.foo'' = Some 101000000 \<and>
   (100 :: int) * 1000000 < int 101000000 \<and>
   \<not> rejected_because ''File too large: '' (new_manager default_config ())
       (perform_quality_checks asset_env (dev_backend asset_env)
          (new_manager default_config ()) ''/assets/hero_character.foo'') \<and>
   perform_quality_checks asset_env (dev_backend asset_env) (new_manager default_config ())
     ''/assets/hero_character.foo'' = (Returns True, new_manager default_config ())"
  by (simp add: policy_def policy_enabled_def max_mb_def fixture_defs
      perform_quality_checks_def get_or_def rejected_because_def path_exists_def string_defs)

section \<open>What each stage leaves of the statistics\<close>

lemma statistics_logger [simp]:
  "statistics (logger_info m s) = statistics s"
  "statistics (logger_warning m s) = statistics s"
  "statistics (logger_error m s) = statistics s"
  by (simp_all add: logger_info_def logger_warning_def logger_error_def)

lemma statistics_quality_gate [simp]:
  "statistics (snd (perform_quality_checks E T s p)) = statistics s"
  by (simp add: perform_quality_checks_def Let_def split: option.splits prod.splits outcome.splits)

lemma statistics_quality_gate_eq:
  "perform_quality_checks E T s p = (r, s') \<Longrightarrow> statistics s' = statistics s"
  using statistics_quality_gate [of E T s p] by simp

lemma statistics_apply_options:
  "apply_translator_options T rule s = (r, s') \<Longrightarrow> statistics s' = statistics s"
  by (auto simp: apply_translator_options_def Let_def split: if_splits prod.splits)

lemma statistics_execute_import:
  "execute_import T rule p s = (r, s') \<Longrightarrow> statistics s' = statistics s"
  by (auto simp: execute_import_def split: prod.splits)

lemma failed_begin_processing [simp]:
  "failed_imports (statistics (begin_processing now c s)) = failed_imports (statistics s)"
  by (simp add: begin_processing_def Let_def)

lemma failed_count [simp]:
  "failed_imports (statistics (count_failed s)) = failed_imports (statistics s) + 1"
  "failed_imports (statistics (count_successful s)) = failed_imports (statistics s)"
  by (simp_all add: count_failed_def count_successful_def)

lemma failed_record_processing_time [simp]:
  "failed_imports (statistics (record_processing_time t s)) = failed_imports (statistics s)"
  by (simp add: record_processing_time_def Let_def)

lemma config_begin_processing [simp]:
  "config (begin_processing now c s) = config s"
  by (simp add: begin_processing_def Let_def)

section \<open>Failures and classification misses\<close>

lemma process_try_failed:
  "failed_imports (statistics (snd (process_try E T s p c now))) +
     (case fst (process_try E T s p c now) of Returns b \<Rightarrow> 0 | Raises e \<Rightarrow> 1) =
   failed_imports (statistics s) + (if counts_as_failure (ending_of E T s p c now) then 1 else 0)"
  by (auto simp: process_try_def ending_of_def Let_def
      dest!: statistics_quality_gate_eq statistics_apply_options statistics_execute_import
      split: option.splits prod.splits outcome.splits bool.splits)

lemma process_try_result:
  "fst (process_try E T s p c now) = Returns True \<longleftrightarrow> ending_of E T s p c now = Imported"
  by (auto simp: process_try_def ending_of_def Let_def
      split: option.splits prod.splits outcome.splits bool.splits)


text \<open>
  Claim C2, as the code has it. A call of \<^verbatim>\<open>process_single_file\<close> adds one to
  \<^verbatim>\<open>failed_imports\<close> exactly when the quality gate returns \<^verbatim>\<open>False\<close> or raises,
  setting the rule's translator options raises, or the import returns \<^verbatim>\<open>False\<close> or
  raises; otherwise the counter keeps its value. The call returns \<^verbatim>\<open>True\<close> exactly when
  the import does. A classification miss (no rule for the category, \<^verbatim>\<open>auto_import\<close>
  off, or a file that passed the gate and matches no pattern) returns \<^verbatim>\<open>False\<close> and
  leaves \<^verbatim>\<open>failed_imports\<close> as it was.
\<close>

theorem failed_imports_counts_failures:
  "failed_imports (statistics (snd (process_single_file E T s p c ev t0 now t1))) =
     failed_imports (statistics s) +
     (if counts_as_failure (ending_of E T s p c now) then 1 else 0) \<and>
   (fst (process_single_file E T s p c ev t0 now t1) \<longleftrightarrow>
      ending_of E T s p c now = Imported) \<and>
   (classification_miss (ending_of E T s p c now) \<longrightarrow>
      \<not> fst (process_single_file E T s p c ev t0 now t1) \<and>
      failed_imports (statistics (snd (process_single_file E T s p c ev t0 now t1))) =
        failed_imports (statistics s))"
proof -
  obtain r s1 where tr: "process_try E T s p c now = (r, s1)"
    by (cases "process_try E T s p c now")
  have counter:
    "failed_imports (statistics (snd (process_single_file E T s p c ev t0 now t1))) =
       failed_imports (statistics s) +
       (if counts_as_failure (ending_of E T s p c now) then 1 else 0)"
    using process_try_failed [of E T s p c now] tr
    by (cases r) (simp_all add: process_single_file_def)
  have result:
    "fst (process_single_file E T s p c ev t0 now t1) \<longleftrightarrow> ending_of E T s p c now = Imported"
    using process_try_result [of E T s p c now] tr
    by (cases r) (auto simp: process_single_file_def)
  have miss:
    "classification_miss (ending_of E T s p c now) \<Longrightarrow>
       \<not> counts_as_failure (ending_of E T s p c now) \<and> ending_of E T s p c now \<noteq> Imported"
    by (cases "ending_of E T s p c now") simp_all
  from counter result miss show ?thesis by auto
qed

theorem failed_imports_counts_failures_witness:
  "classification_miss
     (ending_of asset_env (dev_backend asset_env) (new_manager default_config ())
        ''/assets/prop_barrel.foo'' ''characters'' noon) \<and>
   \<not> fst (process_single_file asset_env (dev_backend asset_env) (new_manager default_config ())
           ''/assets/prop_barrel.foo'' ''characters'' ''created'' 0 noon 1) \<and>
   failed_imports (statistics (snd
     (process_single_file asset_env (dev_backend asset_env) (new_manager default_config ())
        ''/assets/prop_barrel.foo'' ''characters'' ''created'' 0 noon 1))) = 0"
proof -
  have e: "ending_of asset_env (dev_backend asset_env) (new_manager default_config ())
             ''/assets/prop_barrel.foo'' ''characters'' noon = PatternMiss"
    by (simp add: ending_of_def rule_for_def fixture_defs get_or_def begin_processing_def
        perform_quality_checks_def path_exists_def matches_file_patterns_def string_defs)
  have z: "failed_imports (statistics (new_manager default_config () :: unit manager)) = 0"
    by (simp add: new_manager_def)
  from failed_imports_counts_failures
         [of asset_env "dev_backend asset_env" "new_manager default_config ()"
             "''/assets/prop_barrel.foo''" "''characters''" "''created''" 0 noon 1] e z
  show ?thesis by simp
qed

text \<open>
  The counter also moves when neither the gate nor the import fails: a backend that
  raises while the options of the rule are set (in its development mode
  \<^verbatim>\<open>CustomFooTranslator.set_options\<close> prints the options outside any \<^verbatim>\<open>try\<close>, and
  raises when the print does). The gate has passed the file and an import of it would
  return \<^verbatim>\<open>True\<close>.
\<close>

theorem failed_imports_set_options_counterexample:
  "fst (perform_quality_checks asset_env
          (scripted_backend (\<lambda>p. Returns True) (Raises ''options refused''))
          (begin_processing noon ''characters'' (new_manager default_config ()))
          ''/assets/small_character.foo'') = Returns True \<and>
   fst (import_file (scripted_backend (\<lambda>p. Returns True) (Raises ''options refused''))
          ''/assets/small_character.foo'' ''/Game/Characters/'' ()) = Returns True \<and>
   failed_imports (statistics (new_manager default_config () :: unit manager)) = 0 \<and>
   failed_imports (statistics (snd
     (process_single_file asset_env
        (scripted_backend (\<lambda>p. Returns True) (Raises ''options refused''))
        (new_manager default_config ()) ''/assets/small_character.foo'' ''characters''
        ''created'' 0 noon 1))) = 1"
  by (simp add: process_single_file_def process_try_def rule_for_def fixture_defs get_or_def
      begin_processing_def perform_quality_checks_def path_exists_def
      matches_file_patterns_def string_defs apply_translator_options_def
      count_failed_def logger_error_def record_processing_time_def)

section \<open>The history of processing times\<close>

lemma times_begin_processing [simp]:
  "processing_times (statistics (begin_processing now c s)) = processing_times (statistics s)"
  by (simp add: begin_processing_def Let_def)

lemma times_count [simp]:
  "processing_times (statistics (count_failed s)) = processing_times (statistics s)"
  "processing_times (statistics (count_successful s)) = processing_times (statistics s)"
  by (simp_all add: count_failed_def count_successful_def)

lemma times_process_try:
  "processing_times (statistics (snd (process_try E T s p c now))) =
   processing_times (statistics s)"
  by (auto simp: process_try_def Let_def
      dest!: statistics_quality_gate_eq statistics_apply_options statistics_execute_import
      split: option.splits prod.splits outcome.splits)

lemma times_record_processing_time:
  "processing_times (statistics (record_processing_time t s)) =
   drop (length (processing_times (statistics s)) + 1 - 100) (processing_times (statistics s) @ [t])"
  by (simp add: record_processing_time_def Let_def)

text \<open>
  Claim C9. Whatever way a call of \<^verbatim>\<open>process_single_file\<close> ends, the history after it
  is the history before it with the elapsed time \<open>t1 - t0\<close> added at the end, cut to its
  last 100 entries: the new sample is its last entry, and it has at most 100 entries.
\<close>

theorem processing_times_bounded_history:
  "processing_times (statistics (snd (process_single_file E T s p c ev t0 now t1))) =
     drop (length (processing_times (statistics s)) + 1 - 100)
       (processing_times (statistics s) @ [t1 - t0]) \<and>
   last (processing_times (statistics (snd (process_single_file E T s p c ev t0 now t1)))) =
     t1 - t0 \<and>
   length (processing_times (statistics (snd (process_single_file E T s p c ev t0 now t1))))
     = min 100 (length (processing_times (statistics s)) + 1)"
proof -
  obtain r s1 where tr: "process_try E T s p c now = (r, s1)"
    by (cases "process_try E T s p c now")
  have before: "processing_times (statistics s1) = processing_times (statistics s)"
    using times_process_try [of E T s p c now] tr by simp
  have history:
    "processing_times (statistics (snd (process_single_file E T s p c ev t0 now t1))) =
       drop (length (processing_times (statistics s)) + 1 - 100)
         (processing_times (statistics s) @ [t1 - t0])"
    using tr before
    by (cases r) (simp_all add: process_single_file_def times_record_processing_time)
  show ?thesis
    unfolding history by (simp add: min_def)
qed

theorem processing_times_bounded_history_witness:
  "length (processing_times (statistics (snd
     (process_single_file asset_env (dev_backend asset_env)
        ((new_manager default_config ())
           \<lparr>statistics := (statistics (new_manager default_config ()))
              \<lparr>processing_times := replicate 100 (1 / 2)\<rparr>\<rparr>)
        ''/assets/missing.foo'' ''characters'' ''created'' 10 noon 12)))) = 100 \<and>
   last (processing_times (statistics (snd
     (process_single_file asset_env (dev_backend asset_env)
        ((new_manager default_config ())
           \<lparr>statistics := (statistics (new_manager default_config ()))
              \<lparr>processing_times := replicate 100 (1 / 2)\<rparr>\<rparr>)
        ''/assets/missing.foo'' ''characters'' ''created'' 10 noon 12)))) = 2"
  using processing_times_bounded_history
          [of asset_env "dev_backend asset_env"
              "(new_manager default_config ())
                 \<lparr>statistics := (statistics (new_manager default_config ()))
                    \<lparr>processing_times := replicate 100 (1 / 2)\<rparr>\<rparr>"
              "''/assets/missing.foo''" "''characters''" "''created''" 10 noon 12]
  by simp

section \<open>Adding a watch folder\<close>

lemma config_logger [simp]:
  "config (logger_info m s) = config s"
  "config (logger_warning m s) = config s"
  "config (logger_error m s) = config s"
  by (simp_all add: logger_info_def logger_warning_def logger_error_def)

lemma observers_logger [simp]:
  "observers (logger_info m s) = observers s"
  "observers (logger_warning m s) = observers s"
  "observers (logger_error m s) = observers s"
  by (simp_all add: logger_info_def logger_warning_def logger_error_def)

lemma is_monitoring_logger [simp]:
  "is_monitoring (logger_info m s) = is_monitoring s"
  "is_monitoring (logger_warning m s) = is_monitoring s"
  "is_monitoring (logger_error m s) = is_monitoring s"
  by (simp_all add: logger_info_def logger_warning_def logger_error_def)

lemma config_save_configuration [simp]:
  "config (save_configuration E s) = config s"
  by (simp add: save_configuration_def split: outcome.splits)

lemma config_start_folder_monitoring [simp]:
  "config (start_folder_monitoring E s w) = config s"
  by (simp add: start_folder_monitoring_def Let_def split: outcome.splits)

lemma folders_add_watch_folder:
  "folders (snd (add_watch_folder E s p c en now)) =
     (if path_exists E p \<and> abspath E p \<notin> set (map w_path (folders s))
      then folders s @
             [\<lparr>w_path = abspath E p, w_category = c, w_enabled = Some en,
               w_added_time = isoformat now\<rparr>]
      else folders s)"
  by (simp add: add_watch_folder_def folders_def Let_def get_or_def)

lemma known_folder_is_refused:
  assumes "abspath E p \<in> set (map w_path (folders s))"
  shows "\<not> fst (add_watch_folder E s p c en now) \<and>
         config (snd (add_watch_folder E s p c en now)) = config s \<and>
         observers (snd (add_watch_folder E s p c en now)) = observers s"
  using assms by (simp add: add_watch_folder_def folders_def Let_def)

lemma add_watch_folder_lists_path:
  assumes "path_exists E p"
  shows "abspath E p \<in> set (map w_path (folders (snd (add_watch_folder E s p c en now))))"
  using assms by (auto simp: folders_add_watch_folder)

lemma add_watch_folder_distinct:
  assumes "distinct (map w_path (folders s))"
  shows "distinct (map w_path (folders (snd (add_watch_folder E s p c en now))))"
  using assms by (auto simp: folders_add_watch_folder)

lemma one_entry_if_distinct:
  assumes "distinct (map w_path ws)" and "x \<in> set (map w_path ws)"
  shows "length (filter (\<lambda>w. w_path w = x) ws) = 1"
  using assms
proof (induction ws)
  case Nil
  then show ?case by simp
next
  case (Cons w ws)
  show ?case
  proof (cases "w_path w = x")
    case True
    with Cons.prems have "x \<notin> w_path ` set ws" by auto
    then have "filter (\<lambda>w. w_path w = x) ws = []"
      by (auto simp: filter_empty_conv)
    with True show ?thesis by simp
  next
    case False
    with Cons show ?thesis by auto
  qed
qed

text \<open>
  Claim C8. In a configuration with at most one entry per path, adding an existing folder
  and then adding it again, under any name with the same absolute path, leaves exactly
  one entry for that absolute path: the second call reports failure and changes neither
  the configuration nor the observers, and the entries keep distinct paths.
\<close>

theorem add_watch_folder_twice:
  assumes "path_exists E p" and "abspath E p' = abspath E p"
    and "distinct (map w_path (folders s))"
  shows
    "\<not> fst (add_watch_folder E (snd (add_watch_folder E s p c en now)) p' c' en' now') \<and>
     config (snd (add_watch_folder E (snd (add_watch_folder E s p c en now)) p' c' en' now')) =
       config (snd (add_watch_folder E s p c en now)) \<and>
     observers (snd (add_watch_folder E (snd (add_watch_folder E s p c en now)) p' c' en' now')) =
       observers (snd (add_watch_folder E s p c en now)) \<and>
     length (entries_for (abspath E p)
       (snd (add_watch_folder E (snd (add_watch_folder E s p c en now)) p' c' en' now'))) = 1 \<and>
     distinct (map w_path (folders
       (snd (add_watch_folder E (snd (add_watch_folder E s p c en now)) p' c' en' now'))))"
proof -
  let ?s1 = "snd (add_watch_folder E s p c en now)"
  let ?s2 = "snd (add_watch_folder E ?s1 p' c' en' now')"
  have listed: "abspath E p \<in> set (map w_path (folders ?s1))"
    using assms(1) by (rule add_watch_folder_lists_path)
  then have listed': "abspath E p' \<in> set (map w_path (folders ?s1))"
    by (simp only: assms(2))
  have d1: "distinct (map w_path (folders ?s1))"
    using assms(3) by (rule add_watch_folder_distinct)
  have refused: "\<not> fst (add_watch_folder E ?s1 p' c' en' now') \<and> config ?s2 = config ?s1 \<and>
      observers ?s2 = observers ?s1"
    using listed' by (rule known_folder_is_refused)
  then have same: "folders ?s2 = folders ?s1"
    by (simp add: folders_def)
  have one: "length (entries_for (abspath E p) ?s2) = 1"
    unfolding entries_for_def same using d1 listed by (rule one_entry_if_distinct)
  from refused one d1 same show ?thesis by simp
qed

theorem add_watch_folder_twice_witness:
  "path_exists root_env ''/assets'' \<and>
   abspath root_env ''assets'' = abspath root_env ''/assets'' \<and>
   distinct (map w_path (folders (new_manager default_config () :: unit manager))) \<and>
   fst (add_watch_folder root_env (new_manager default_config () :: unit manager)
          ''/assets'' ''props'' True noon) \<and>
   \<not> fst (add_watch_folder root_env
          (snd (add_watch_folder root_env (new_manager default_config () :: unit manager)
                  ''/assets'' ''props'' True noon))
          ''assets'' ''characters'' True (noon_plus 30)) \<and>
   length (entries_for ''/assets''
     (snd (add_watch_folder root_env
          (snd (add_watch_folder root_env (new_manager default_config () :: unit manager)
                  ''/assets'' ''props'' True noon))
          ''assets'' ''characters'' True (noon_plus 30)))) = 1"
proof -
  have ex: "path_exists root_env ''/assets''"
    by (simp add: path_exists_def root_env_def fixture_defs)
  have a: "abspath root_env ''assets'' = abspath root_env ''/assets''"
    "abspath root_env ''/assets'' = ''/assets''"
    by (simp_all add: root_env_def)
  have d: "distinct (map w_path (folders (new_manager default_config () :: unit manager)))"
    by (simp add: folders_def fixture_defs get_or_def)
  have first: "fst (add_watch_folder root_env (new_manager default_config () :: unit manager)
          ''/assets'' ''props'' True noon)"
    using ex by (simp add: add_watch_folder_def fixture_defs get_or_def Let_def a)
  from add_watch_folder_twice
         [OF ex a(1) d, of "''props''" True noon "''characters''" True "noon_plus 30"]
       ex d a first
  show ?thesis by simp
qed

text \<open>
  Claim C10. For a path that does not exist, \<^verbatim>\<open>add_watch_folder\<close> returns \<^verbatim>\<open>False\<close>
  and only logs a warning: the configuration, the observers and the monitoring flag
  are those of before, whatever \<^verbatim>\<open>enabled\<close> is.
\<close>

theorem add_watch_folder_missing_path:
  assumes "\<not> path_exists E p"
  shows "add_watch_folder E s p c en now =
           (False, logger_warning (''Watch folder does not exist: '' @ p) s) \<and>
         config (snd (add_watch_folder E s p c en now)) = config s \<and>
         folders (snd (add_watch_folder E s p c en now)) = folders s \<and>
         observers (snd (add_watch_folder E s p c en now)) = observers s \<and>
         is_monitoring (snd (add_watch_folder E s p c en now)) = is_monitoring s"
  using assms by (simp add: add_watch_folder_def folders_def)

theorem add_watch_folder_missing_path_witness:
  "\<not> path_exists asset_env ''/nowhere'' \<and>
   \<not> fst (add_watch_folder asset_env
           ((new_manager default_config () :: unit manager)\<lparr>is_monitoring := True\<rparr>)
           ''/nowhere'' ''props'' True noon) \<and>
   folders (snd (add_watch_folder asset_env
           ((new_manager default_config () :: unit manager)\<lparr>is_monitoring := True\<rparr>)
           ''/nowhere'' ''props'' True noon)) = [] \<and>
   observers (snd (add_watch_folder asset_env
           ((new_manager default_config () :: unit manager)\<lparr>is_monitoring := True\<rparr>)
           ''/nowhere'' ''props'' True noon)) = []"
proof -
  have ex: "\<not> path_exists asset_env ''/nowhere''"
    by (simp add: path_exists_def fixture_defs)
  have before:
    "folders ((new_manager default_config () :: unit manager)\<lparr>is_monitoring := True\<rparr>) = []"
    "observers ((new_manager default_config () :: unit manager)\<lparr>is_monitoring := True\<rparr>) = []"
    by (simp_all add: folders_def fixture_defs get_or_def)
  from add_watch_folder_missing_path
         [OF ex, of "(new_manager default_config () :: unit manager)\<lparr>is_monitoring := True\<rparr>"
            "''props''" True noon]
       ex before
  show ?thesis by (simp add: folders_def)
qed

section \<open>Computations that cannot raise\<close>

lemma truediv_nonzero: "b \<noteq> 0 \<Longrightarrow> truediv a b = Returns (a / b)"
  by (simp add: truediv_def)

lemma get_statistics_returns:
  "get_statistics s now =
     Returns
       \<lparr>total_processed = total_processed (statistics s),
        successful_imports = successful_imports (statistics s),
        failed_imports = failed_imports (statistics s),
        start_time = start_time (statistics s),
        last_activity = last_activity (statistics s),
        files_per_category = files_per_category (statistics s),
        processing_times = processing_times (statistics s),
        average_processing_time =
          (if processing_times (statistics s) \<noteq> []
           then Some (sum_list (processing_times (statistics s)) /
                      real (length (processing_times (statistics s))))
           else None),
        min_processing_time =
          (if processing_times (statistics s) \<noteq> []
           then Some (fold min (tl (processing_times (statistics s)))
                        (hd (processing_times (statistics s))))
           else None),
        max_processing_time =
          (if processing_times (statistics s) \<noteq> []
           then Some (fold max (tl (processing_times (statistics s)))
                        (hd (processing_times (statistics s))))
           else None),
        success_rate =
          (if 0 < total_processed (statistics s)
           then real (successful_imports (statistics s)) /
                real (total_processed (statistics s)) * 100
           else 0),
        uptime_seconds =
          map_option total_seconds (map_option (datetime_sub now) (start_time (statistics s))),
        uptime_formatted =
          map_option timedelta_str (map_option (datetime_sub now) (start_time (statistics s))),
        monitoring_enabled = is_monitoring s,
        watched_folders = length (get_or (watch_folders (config s)) []),
        import_rules_count = dict_len (get_or (import_rules (config s)) [])\<rparr>"
  by (cases "processing_times (statistics s)")
    (simp_all add: get_statistics_def Let_def truediv_nonzero)

section \<open>Resetting the statistics\<close>

text \<open>
  Claim C7. After \<^verbatim>\<open>reset_statistics\<close> the three counters are zero, the counts per
  category and the history of processing times are empty and no last activity is kept;
  the start time is the time of the reset when monitoring is on and unset when it is
  off, so that \<^verbatim>\<open>get_statistics\<close> then returns, with an uptime exactly when monitoring
  is on.
\<close>

theorem reset_statistics_clears:
  "total_processed (statistics (reset_statistics s now)) = 0 \<and>
   successful_imports (statistics (reset_statistics s now)) = 0 \<and>
   failed_imports (statistics (reset_statistics s now)) = 0 \<and>
   files_per_category (statistics (reset_statistics s now)) = [] \<and>
   processing_times (statistics (reset_statistics s now)) = [] \<and>
   last_activity (statistics (reset_statistics s now)) = None \<and>
   start_time (statistics (reset_statistics s now)) =
     (if is_monitoring s then Some now else None) \<and>
   is_monitoring (reset_statistics s now) = is_monitoring s \<and>
   (\<exists>v. get_statistics (reset_statistics s now) later = Returns v \<and>
        (uptime_seconds v = None \<longleftrightarrow> \<not> is_monitoring s) \<and>
        (uptime_formatted v = None \<longleftrightarrow> \<not> is_monitoring s))"
  by (simp add: get_statistics_returns) (simp add: reset_statistics_def)

theorem reset_statistics_clears_witness:
  "start_time (statistics (reset_statistics
     ((new_manager default_config () :: unit manager)\<lparr>is_monitoring := True\<rparr>) noon)) =
     Some noon \<and>
   (\<exists>v. get_statistics (reset_statistics
           ((new_manager default_config () :: unit manager)\<lparr>is_monitoring := True\<rparr>) noon)
           (noon_plus 5) = Returns v \<and> uptime_formatted v \<noteq> None) \<and>
   (\<exists>v. get_statistics (reset_statistics
           (new_manager default_config () :: unit manager) noon) (noon_plus 5) = Returns v \<and>
        uptime_formatted v = None)"
proof -
  let ?on = "(new_manager default_config () :: unit manager)\<lparr>is_monitoring := True\<rparr>"
  let ?off = "new_manager default_config () :: unit manager"
  have m: "is_monitoring ?on" "\<not> is_monitoring ?off"
    by (simp_all add: new_manager_def)
  from reset_statistics_clears [of ?on noon "noon_plus 5"] m(1)
  have armed: "start_time (statistics (reset_statistics ?on noon)) = Some noon"
    and up: "\<exists>v. get_statistics (reset_statistics ?on noon) (noon_plus 5) = Returns v \<and>
               uptime_formatted v \<noteq> None"
    by auto
  from reset_statistics_clears [of ?off noon "noon_plus 5"] m(2)
  have down: "\<exists>v. get_statistics (reset_statistics ?off noon) (noon_plus 5) = Returns v \<and>
               uptime_formatted v = None"
    by auto
  from armed up down show ?thesis by blast
qed

section \<open>The report and the clock\<close>

lemma list_update_Cons_numeral:
  "(x # xs)[numeral k := y] = x # xs[pred_numeral k := y]"
  by (simp add: numeral_eq_Suc)

lemma timedelta_str_nonempty [simp]: "timedelta_str t \<noteq> []"
  by (simp add: timedelta_str_def Let_def)

lemma report_lines_clock:
  assumes "get_statistics s a1 = Returns v1" and "get_statistics s a2 = Returns v2"
  shows "(report_lines v1 (folders s) b1)[3 := x, 9 := y] =
         (report_lines v2 (folders s) b2)[3 := x, 9 := y]"
  using assms
  by (cases "start_time (statistics s)")
    (auto simp: report_lines_def get_statistics_returns list_update_Cons_numeral)

lemma report_lines_clock_unset:
  assumes "get_statistics s a1 = Returns v1" and "get_statistics s a2 = Returns v2"
    and "start_time (statistics s) = None"
  shows "(report_lines v1 (folders s) b1)[3 := x] = (report_lines v2 (folders s) b2)[3 := x]"
  using assms
  by (auto simp: report_lines_def get_statistics_returns list_update_Cons_numeral)

text \<open>
  Claim C3, as the code has it. \<^verbatim>\<open>get_statistics\<close> returns, and the text of the report
  is its lines joined by newlines. For one state, the lines of two reports agree
  everywhere but at index 3, the line ``Generated'', and at index 9, which is the line
  ``Uptime'' when a start time is set; when no start time is set they agree everywhere
  but at index 3. Without an output file the state after the call is the state before
  it.
\<close>

theorem generate_report_clock_lines:
  "\<exists>v v1 v2.
     get_statistics s a = Returns v \<and>
     get_statistics s a1 = Returns v1 \<and>
     get_statistics s a2 = Returns v2 \<and>
     fst (generate_report E s f a b) =
       Returns (join [CHR 0x0A] (report_lines v (folders s) b)) \<and>
     (report_lines v1 (folders s) b1)[3 := x, 9 := y] =
       (report_lines v2 (folders s) b2)[3 := x, 9 := y] \<and>
     (start_time (statistics s) = None \<longrightarrow>
        (report_lines v1 (folders s) b1)[3 := x] = (report_lines v2 (folders s) b2)[3 := x]) \<and>
     snd (generate_report E s None a b) = s"
proof -
  obtain v where v: "get_statistics s a = Returns v"
    by (simp add: get_statistics_returns)
  obtain v1 where v1: "get_statistics s a1 = Returns v1"
    by (simp add: get_statistics_returns)
  obtain v2 where v2: "get_statistics s a2 = Returns v2"
    by (simp add: get_statistics_returns)
  have joined: "fst (generate_report E s f a b) =
      Returns (join [CHR 0x0A] (report_lines v (folders s) b))"
    by (simp add: generate_report_def v folders_def Let_def)
  have both: "(report_lines v1 (folders s) b1)[3 := x, 9 := y] =
      (report_lines v2 (folders s) b2)[3 := x, 9 := y]"
    using v1 v2 by (rule report_lines_clock)
  have unset: "start_time (statistics s) = None \<Longrightarrow>
      (report_lines v1 (folders s) b1)[3 := x] = (report_lines v2 (folders s) b2)[3 := x]"
    using v1 v2 by (rule report_lines_clock_unset)
  have state: "snd (generate_report E s None a b) = s"
    by (simp add: generate_report_def v Let_def)
  from v v1 v2 joined both unset state
  have "get_statistics s a = Returns v \<and>
     get_statistics s a1 = Returns v1 \<and>
     get_statistics s a2 = Returns v2 \<and>
     fst (generate_report E s f a b) =
       Returns (join [CHR 0x0A] (report_lines v (folders s) b)) \<and>
     (report_lines v1 (folders s) b1)[3 := x, 9 := y] =
       (report_lines v2 (folders s) b2)[3 := x, 9 := y] \<and>
     (start_time (statistics s) = None \<longrightarrow>
        (report_lines v1 (folders s) b1)[3 := x] = (report_lines v2 (folders s) b2)[3 := x]) \<and>
     snd (generate_report E s None a b) = s"
    by simp
  then show ?thesis by (intro exI)
qed

theorem generate_report_clock_lines_witness:
  "start_time (statistics (new_manager default_config () :: unit manager)) = None \<and>
   (\<exists>v1 v2.
      get_statistics (new_manager default_config () :: unit manager) noon = Returns v1 \<and>
      get_statistics (new_manager default_config () :: unit manager) (noon_plus 30) =
        Returns v2 \<and>
      (report_lines v1 (folders (new_manager default_config () :: unit manager)) noon)
         [3 := ''Generated''] =
      (report_lines v2 (folders (new_manager default_config () :: unit manager))
         (noon_plus 30)) [3 := ''Generated''])"
proof -
  have unset: "start_time (statistics (new_manager default_config () :: unit manager)) = None"
    by (simp add: new_manager_def)
  from generate_report_clock_lines
         [of "new_manager default_config () :: unit manager" noon noon "noon_plus 30"
             asset_env None noon noon "''Generated''" "''Uptime''" "noon_plus 30"]
       unset
  show ?thesis by blast
qed

lemma fresh_manager_statistics:
  "get_statistics (new_manager default_config () :: unit manager) a =
     Returns
       \<lparr>total_processed = 0, successful_imports = 0, failed_imports = 0, start_time = None,
        last_activity = None, files_per_category = [], processing_times = [],
        average_processing_time = None, min_processing_time = None,
        max_processing_time = None, success_rate = 0, uptime_seconds = None,
        uptime_formatted = None, monitoring_enabled = False, watched_folders = 0,
        import_rules_count = 3\<rparr>"
  by (simp add: get_statistics_returns) (simp add: fixture_defs get_or_def dict_len_def)

lemma format_fixed_zero: "format_fixed (Suc 0) 0 = ''0.0''"
  by (simp add: format_fixed_def round_half_even_def zfill_def str_nat.simps digit_char_def)

lemma isoformat_noon_plus:
  "isoformat noon = ''2024-01-01T12:00:00''"
  "isoformat (noon_plus 30) = ''2024-01-01T12:00:30''"
  by (simp_all add: isoformat_def zfill_def str_nat.simps digit_char_def noon_def
      noon_plus_def replicate_numeral)

lemma fresh_manager_report:
  "fst (generate_report asset_env (new_manager default_config () :: unit manager) None a b) =
     Returns (join [CHR 0x0A]
       [replicate 60 CHR ''='', ''INTERCHANGE AUTOMATION REPORT'', replicate 60 CHR ''='',
        ''Generated: '' @ isoformat b, [], ''SYSTEM STATUS:'', ''  Monitoring Active: No'',
        ''  Watched Folders: 0'', ''  Import Rules: 3'', [], ''PROCESSING STATISTICS:'',
        ''  Total Processed: 0'', ''  Successful: 0'', ''  Failed: 0'',
        ''  Success Rate: 0.0%'', [], ''CONFIGURATION:'', replicate 60 CHR ''=''])"
proof -
  have no_folders:
    "get_or (watch_folders (config (new_manager default_config () :: unit manager))) [] = []"
    by (simp add: fixture_defs get_or_def)
  show ?thesis
    by (simp add: generate_report_def fresh_manager_statistics no_folders report_lines_def
        format_fixed_zero str_nat.simps digit_char_def)
qed

text \<open>
  Two calls in a row, the second half a minute after the first, on a manager just
  created: the first leaves the state as it was, and the two texts differ in the line
  ``Generated''.
\<close>

theorem generate_report_clock_counterexample:
  "snd (generate_report asset_env (new_manager default_config () :: unit manager) None
          noon noon) = new_manager default_config () \<and>
   fst (generate_report asset_env (new_manager default_config () :: unit manager) None
          noon noon) =
     Returns (join [CHR 0x0A]
       [replicate 60 CHR ''='', ''INTERCHANGE AUTOMATION REPORT'', replicate 60 CHR ''='',
        ''Generated: 2024-01-01T12:00:00'', [], ''SYSTEM STATUS:'',
        ''  Monitoring Active: No'', ''  Watched Folders: 0'', ''  Import Rules: 3'', [],
        ''PROCESSING STATISTICS:'', ''  Total Processed: 0'', ''  Successful: 0'',
        ''  Failed: 0'', ''  Success Rate: 0.0%'', [], ''CONFIGURATION:'',
        replicate 60 CHR ''='']) \<and>
   fst (generate_report asset_env
          (snd (generate_report asset_env (new_manager default_config () :: unit manager) None
                  noon noon))
          None (noon_plus 30) (noon_plus 30)) =
     Returns (join [CHR 0x0A]
       [replicate 60 CHR ''='', ''INTERCHANGE AUTOMATION REPORT'', replicate 60 CHR ''='',
        ''Generated: 2024-01-01T12:00:30'', [], ''SYSTEM STATUS:'',
        ''  Monitoring Active: No'', ''  Watched Folders: 0'', ''  Import Rules: 3'', [],
        ''PROCESSING STATISTICS:'', ''  Total Processed: 0'', ''  Successful: 0'',
        ''  Failed: 0'', ''  Success Rate: 0.0%'', [], ''CONFIGURATION:'',
        replicate 60 CHR ''='']) \<and>
   fst (generate_report asset_env (new_manager default_config () :: unit manager) None
          noon noon) \<noteq>
   fst (generate_report asset_env
          (snd (generate_report asset_env (new_manager default_config () :: unit manager) None
                  noon noon))
          None (noon_plus 30) (noon_plus 30))"
proof -
  have same: "snd (generate_report asset_env (new_manager default_config () :: unit manager)
      None noon noon) = new_manager default_config ()"
    by (simp add: generate_report_def fresh_manager_statistics Let_def)
  show ?thesis
    unfolding same by (simp add: same fresh_manager_report isoformat_noon_plus)
qed

section \<open>The batch loop\<close>

lemma batch_step_summary:
  assumes "batch_step T d n i f (r, s) = (r1, s1)"
    and "import_file T f d (translator s) = (out, b)"
    and "0 < n"
  shows "translator s1 = b \<and>
         total_files r1 = total_files r \<and>
         successful r1 = successful r + (if succeeded out then 1 else 0) \<and>
         failed r1 = failed r + (if succeeded out then 0 else 1) \<and>
         map d_file (details r1) = map d_file (details r) @ [f] \<and>
         map d_status (details r1) = map d_status (details r) @ [status_of out]"
proof (cases out)
  case (Returns success)
  with assms show ?thesis
    by (cases success)
      (auto simp: batch_step_def Let_def logger_info_def succeeded_def truediv_def
         split: if_splits)
next
  case (Raises e)
  with assms show ?thesis
    by (auto simp: batch_step_def Let_def succeeded_def error_detail_def)
qed

lemma batch_loop_summary:
  assumes "0 < n \<or> fs = []"
  shows
  "total_files (fst (batch_loop T d n i fs (r, s))) = total_files r \<and>
   successful (fst (batch_loop T d n i fs (r, s))) =
     successful r + length (filter succeeded (import_outcomes T d (translator s) fs)) \<and>
   failed (fst (batch_loop T d n i fs (r, s))) =
     failed r + length (filter (\<lambda>out. \<not> succeeded out) (import_outcomes T d (translator s) fs)) \<and>
   map d_file (details (fst (batch_loop T d n i fs (r, s)))) = map d_file (details r) @ fs \<and>
   map d_status (details (fst (batch_loop T d n i fs (r, s)))) =
     map d_status (details r) @ map status_of (import_outcomes T d (translator s) fs)"
  using assms
proof (induction fs arbitrary: i r s)
  case Nil
  show ?case by simp
next
  case (Cons f fs)
  then have n: "0 < n" by simp
  obtain r1 s1 where step: "batch_step T d n i f (r, s) = (r1, s1)"
    by (cases "batch_step T d n i f (r, s)")
  obtain out b where call: "import_file T f d (translator s) = (out, b)"
    by (cases "import_file T f d (translator s)")
  note one = batch_step_summary [OF step call n]
  from n have "0 < n \<or> fs = []" by simp
  note rest = Cons.IH [OF this, of "i + 1" r1 s1]
  show ?case
    using one rest by (simp add: step call)
qed

lemma length_import_outcomes [simp]:
  "length (import_outcomes T d b fs) = length fs"
  by (induction fs arbitrary: b) simp_all

lemma filter_split_length:
  "length (filter P xs) + length (filter (\<lambda>x. \<not> P x) xs) = length xs"
  by (induction xs) simp_all

lemma batch_import_files_summary:
  "\<exists>r. fst (batch_import_files T s fs d c t0 n0 n1 t1) = Returns r \<and>
     total_files r = length fs \<and>
     successful r = length (filter succeeded (import_outcomes T d (translator s) fs)) \<and>
     failed r =
       length (filter (\<lambda>out. \<not> succeeded out) (import_outcomes T d (translator s) fs)) \<and>
     map d_file (details r) = fs \<and>
     map d_status (details r) = map status_of (import_outcomes T d (translator s) fs) \<and>
     b_success_rate r =
       Some (if 0 < length fs
             then real (length (filter succeeded (import_outcomes T d (translator s) fs))) /
                  real (length fs) * 100
             else 0)"
proof -
  have "0 < length fs \<or> fs = []" by simp
  note loop = batch_loop_summary
    [OF this, of T d 0
        "\<lparr>total_files = length fs, successful = 0, failed = 0, b_start_time = isoformat n0,
          details = [], end_time = None, duration_seconds = None, b_success_rate = None\<rparr>"
        "logger_info (''Starting batch import of '' @ str_nat (length fs) @ '' files'') s"]
  show ?thesis
  proof (cases "fs = []")
    case True
    then show ?thesis
      by (simp add: batch_import_files_def Let_def)
  next
    case False
    with loop show ?thesis
      by (simp add: batch_import_files_def Let_def logger_info_def truediv_nonzero)
  qed
qed

text \<open>
  Claim C5. For every list of paths the batch import returns, with one detail record
  per path, in the order of the list: its status is \<^verbatim>\<open>success\<close> when the import of the
  path returned \<^verbatim>\<open>True\<close>, \<^verbatim>\<open>failed\<close> when it returned \<^verbatim>\<open>False\<close> and \<^verbatim>\<open>error\<close> when it
  raised, and the files after a raising one are imported as well. The counts of
  successful and failed files add up to the number of paths.
\<close>

theorem batch_import_covers_every_file:
  "\<exists>r. fst (batch_import_files T s fs d c t0 n0 n1 t1) = Returns r \<and>
     total_files r = length fs \<and>
     map d_file (details r) = fs \<and>
     map d_status (details r) = map status_of (import_outcomes T d (translator s) fs) \<and>
     successful r + failed r = length fs"
  using batch_import_files_summary [of T s fs d c t0 n0 n1 t1]
        filter_split_length [of succeeded "import_outcomes T d (translator s) fs"]
  by auto

theorem batch_import_covers_every_file_witness:
  "\<exists>r. fst (batch_import_files moody_backend (new_manager default_config ())
            [''/assets/a.foo'', ''/assets/broken.foo'', ''/assets/refused.foo'',
             ''/assets/b.foo'']
            ''/Game/Props/'' ''batch'' 0 noon (noon_plus 30) 30) = Returns r \<and>
     map d_status (details r) = [''success'', ''error'', ''failed'', ''success''] \<and>
     successful r + failed r = 4"
proof -
  have outs:
    "import_outcomes moody_backend ''/Game/Props/''
       (translator (new_manager default_config ()))
       [''/assets/a.foo'', ''/assets/broken.foo'', ''/assets/refused.foo'', ''/assets/b.foo'']
     = [Returns True, Raises ''disk error'', Returns False, Returns True]"
    by (simp add: moody_backend_def scripted_backend_def)
  from batch_import_covers_every_file
         [of moody_backend "new_manager default_config ()"
             "[''/assets/a.foo'', ''/assets/broken.foo'', ''/assets/refused.foo'',
               ''/assets/b.foo'']"
             "''/Game/Props/''" "''batch''" 0 noon "noon_plus 30" 30]
  obtain r where r:
    "fst (batch_import_files moody_backend (new_manager default_config ())
            [''/assets/a.foo'', ''/assets/broken.foo'', ''/assets/refused.foo'',
             ''/assets/b.foo'']
            ''/Game/Props/'' ''batch'' 0 noon (noon_plus 30) 30) = Returns r"
    "map d_status (details r) =
       map status_of (import_outcomes moody_backend ''/Game/Props/''
         (translator (new_manager default_config ()))
         [''/assets/a.foo'', ''/assets/broken.foo'', ''/assets/refused.foo'',
          ''/assets/b.foo''])"
    "successful r + failed r =
       length [''/assets/a.foo'', ''/assets/broken.foo'', ''/assets/refused.foo'',
               ''/assets/b.foo'']"
    by blast
  from r(2) have "map d_status (details r) = [''success'', ''error'', ''failed'', ''success'']"
    unfolding outs by simp
  with r(1,3) show ?thesis by simp
qed



section \<open>One pending event per path\<close>




lemma process_items_queue [simp]:
  "processing_queue (fst (process_items proc items hm)) = processing_queue (fst hm)"
  by (induction items arbitrary: hm) (auto split: prod.splits outcome.splits)

lemma process_queue_empties [simp]:
  "processing_queue (fst (process_queue proc hm)) = []"
  by (simp add: process_queue_def)











end
